theory Spec2Isabelle
  imports Complex_Main
begin

section \<open>Data model (src/types)\<close>

text \<open>
  JavaScript numbers are modelled exactly: the integer-valued fields (level, xp,
  xp_reward, current_value, target_value) are \<open>int\<close>, and the arithmetic that leaves the
  integers (\<open>xp / 100\<close>, \<open>Math.sqrt\<close>, \<open>* 0.1\<close>, \<open>* 1.5\<close>, \<open>/ 30\<close>) is carried out in
  \<open>real\<close>. A \<open>NaN\<close> result is the value \<open>None\<close>. Optional fields are \<open>option\<close>s.
\<close>

datatype difficulty = easy | medium | hard

datatype category = sport | studies | routine

datatype mission_status = pending | in_progress | completed | failed

datatype objective_status = obj_active | obj_completed | obj_paused

datatype history_action = act_created | act_started | act_completed | act_failed | act_updated

datatype stat_key = key_strength | key_intelligence | key_motivation

text \<open>
  The stats object is a \<open>JSONB\<close> column whose default is \<open>{}\<close>, so a stat read from it is
  a number, or \<open>undefined\<close> when the key is absent, or the \<open>NaN\<close> that an earlier sum left
  there.
\<close>

datatype stat_value = Undefined | NaN | Number int

record stats =
  strength :: stat_value
  intelligence :: stat_value
  motivation :: stat_value

record UserProfile =
  profile_id :: string
  username :: "string option"
  level :: int
  xp :: int
  stats :: stats

text \<open>
  A row of the \<open>profiles\<close> table as the remote store returns it: \<open>level\<close>, \<open>xp\<close> and
  \<open>stats\<close> may be \<open>null\<close> (\<open>None\<close>).
\<close>

record ProfileRow =
  row_id :: string
  row_username :: "string option"
  row_level :: "int option"
  row_xp :: "int option"
  row_stats :: "stats option"

text \<open>
  Dates: \<open>start_date\<close> and \<open>end_date\<close> hold the instant (milliseconds since the epoch)
  that \<open>new Date(...)\<close> reads from the stored \<open>DATE\<close> column; an absent \<open>end_date\<close> is
  \<open>None\<close>. A date-only string \<open>YYYY-MM-DD\<close> (a mission's deadline) is held as its UTC
  day number. The timestamps \<open>created_at\<close>/\<open>updated_at\<close> and the optional references
  \<open>objective_id\<close>/\<open>schedule_id\<close> take no part in the logic and are left out.
\<close>

datatype frequency = daily | weekly | monthly

record Schedule =
  schedule_id :: string
  frequency :: frequency
  start_date :: int
  end_date :: "int option"
  is_active :: bool

text \<open>A JavaScript \<open>Date\<close>: its instant and its local hour of day (\<open>getHours()\<close>).\<close>

record Date =
  getTime :: int
  getHours :: int

record Mission =
  mission_id :: string
  user_id :: string
  title :: string
  description :: "string option"
  category :: category
  difficulty :: difficulty
  xp_reward :: int
  deadline :: "int option"
  status :: mission_status

record CreateMissionInput =
  in_title :: string
  in_description :: "string option"
  in_category :: category
  in_difficulty :: difficulty
  in_xp_reward :: int
  in_deadline :: "int option"

record UpdateMissionInput =
  upd_title :: "string option"
  upd_description :: "string option"
  upd_category :: "category option"
  upd_difficulty :: "difficulty option"
  upd_xp_reward :: "int option"
  upd_deadline :: "int option"
  upd_status :: "mission_status option"

record MissionHistory =
  h_mission_id :: string
  h_user_id :: string
  h_action :: history_action
  h_old_status :: "mission_status option"
  h_new_status :: "mission_status option"
  h_xp_gained :: int
  h_notes :: "string option"

record MissionTemplate =
  tpl_title :: string
  tpl_description :: string
  tpl_type :: string

text \<open>\<open>Partial<UserProfile>\<close>: the fields an update carries.\<close>

record ProfileUpdates =
  set_username :: "string option"
  set_level :: "int option"
  set_xp :: "int option"
  set_stats :: "stats option"

record Objective =
  objective_id :: string
  o_title :: string
  target_value :: int
  current_value :: int
  o_status :: objective_status

record UpdateObjectiveInput =
  uo_title :: "string option"
  uo_target_value :: "int option"
  uo_current_value :: "int option"
  uo_status :: "objective_status option"

section \<open>Progression functions\<close>

fun getDifficultyMultiplier :: "difficulty \<Rightarrow> real" where
  "getDifficultyMultiplier easy = 1"
| "getDifficultyMultiplier medium = 1.5"
| "getDifficultyMultiplier hard = 2"

text \<open>The object literal \<open>{ easy: 10, medium: 26, hard: 51 }\<close> of \<open>getXPReward\<close>.\<close>

fun baseXP :: "difficulty \<Rightarrow> real" where
  "baseXP easy = 10"
| "baseXP medium = 26"
| "baseXP hard = 51"

definition getXPReward :: "difficulty \<Rightarrow> int \<Rightarrow> int" where
  "getXPReward d userLevel =
     (let levelMultiplier = 1 + (of_int userLevel - 1) * 0.1;
          difficultyMultiplier = getDifficultyMultiplier d
      in \<lfloor>baseXP d * levelMultiplier * difficultyMultiplier\<rfloor>)"

text \<open>
  JavaScript arithmetic on stat values: \<open>a + b\<close> is the sum of two numbers and \<open>NaN\<close> as
  soon as an operand is \<open>undefined\<close> or \<open>NaN\<close>; \<open>a / c\<close> for a constant \<open>c\<close> is \<open>NaN\<close>
  (\<open>None\<close>) for such an operand; a comparison with \<open>NaN\<close> is false.
\<close>

definition js_plus :: "stat_value \<Rightarrow> stat_value \<Rightarrow> stat_value" where
  "js_plus a b =
     (case a of
        Number x \<Rightarrow> (case b of Number y \<Rightarrow> Number (x + y) | _ \<Rightarrow> NaN)
      | _ \<Rightarrow> NaN)"

definition js_divide :: "stat_value \<Rightarrow> real \<Rightarrow> real option" where
  "js_divide a c = (case a of Number x \<Rightarrow> Some (real_of_int x / c) | _ \<Rightarrow> None)"

definition js_less :: "real option \<Rightarrow> real \<Rightarrow> bool" where
  "js_less a c = (case a of None \<Rightarrow> False | Some x \<Rightarrow> x < c)"

definition selectDifficulty :: "int \<Rightarrow> stats \<Rightarrow> difficulty" where
  "selectDifficulty userLevel st =
     (let totalStats = js_plus (js_plus (strength st) (intelligence st)) (motivation st);
          statLevel = js_divide totalStats 30
      in if userLevel \<le> 3 \<or> js_less statLevel 0.5 then easy
         else if userLevel \<le> 7 \<or> js_less statLevel 1.5 then medium
         else hard)"

text \<open>
  \<open>calculateLevel = (xp) => Math.floor(Math.sqrt(xp / 100)) + 1\<close>. For a negative
  argument \<open>Math.sqrt\<close> is \<open>NaN\<close>, and so is the result.
\<close>

definition calculateLevel :: "int \<Rightarrow> int option" where
  "calculateLevel x =
     (if x < 0 then None else Some (\<lfloor>sqrt (real_of_int x / 100)\<rfloor> + 1))"

fun getMissionTemplates :: "category \<Rightarrow> MissionTemplate list" where
  "getMissionTemplates sport =
     [\<lparr>tpl_title = ''Morning Run'', tpl_description = ''Complete a 30-minute run'',
        tpl_type = ''timed''\<rparr>,
      \<lparr>tpl_title = ''Strength Training'',
        tpl_description = ''Do 3 sets of push-ups and squats'', tpl_type = ''repetition''\<rparr>,
      \<lparr>tpl_title = ''Yoga Session'', tpl_description = ''Practice yoga for 20 minutes'',
        tpl_type = ''timed''\<rparr>,
      \<lparr>tpl_title = ''Cardio Workout'',
        tpl_description = ''Complete 45 minutes of cardio exercise'', tpl_type = ''timed''\<rparr>,
      \<lparr>tpl_title = ''Skill Building'', tpl_description = ''Learn a new exercise technique'',
        tpl_type = ''skill''\<rparr>]"
| "getMissionTemplates studies =
     [\<lparr>tpl_title = ''Reading Session'', tpl_description = ''Read for 45 minutes'',
        tpl_type = ''timed''\<rparr>,
      \<lparr>tpl_title = ''Practice Problems'', tpl_description = ''Solve 20 math problems'',
        tpl_type = ''repetition''\<rparr>,
      \<lparr>tpl_title = ''Language Learning'',
        tpl_description = ''Study vocabulary for 30 minutes'', tpl_type = ''timed''\<rparr>,
      \<lparr>tpl_title = ''Research Project'', tpl_description = ''Work on research for 1 hour'',
        tpl_type = ''timed''\<rparr>,
      \<lparr>tpl_title = ''Skill Practice'', tpl_description = ''Practice a new study technique'',
        tpl_type = ''skill''\<rparr>]"
| "getMissionTemplates routine =
     [\<lparr>tpl_title = ''Meal Prep'', tpl_description = ''Prepare healthy meals for the day'',
        tpl_type = ''task''\<rparr>,
      \<lparr>tpl_title = ''Cleaning Routine'',
        tpl_description = ''Clean your living space for 30 minutes'', tpl_type = ''timed''\<rparr>,
      \<lparr>tpl_title = ''Meditation'', tpl_description = ''Meditate for 15 minutes'',
        tpl_type = ''timed''\<rparr>,
      \<lparr>tpl_title = ''Journaling'', tpl_description = ''Write in your journal for 20 minutes'',
        tpl_type = ''timed''\<rparr>,
      \<lparr>tpl_title = ''Habit Building'', tpl_description = ''Practice a new daily habit'',
        tpl_type = ''skill''\<rparr>]"

section \<open>Schedule availability gate (checkScheduleAvailability)\<close>

text \<open>
  The callback given to \<open>schedules.some\<close>, with its early returns in the source's order.
  The clock read \<open>new Date()\<close> is the parameter \<open>now\<close>.
\<close>

definition coversNow :: "Date \<Rightarrow> int \<Rightarrow> Schedule \<Rightarrow> bool" where
  "coversNow now currentHour schedule =
     (if \<not> is_active schedule then False
      else
        let startDate = start_date schedule;
            endDate = end_date schedule
        in if getTime now < startDate
              \<or> (case endDate of None \<Rightarrow> False | Some e \<Rightarrow> getTime now > e)
           then False
           else currentHour \<ge> 8 \<and> currentHour \<le> 20)"

definition checkScheduleAvailability :: "Date \<Rightarrow> Schedule list \<Rightarrow> bool" where
  "checkScheduleAvailability now schedules =
     (let currentHour = getHours now
      in list_ex (coversNow now currentHour) schedules)"

section \<open>The stores and the remote store\<close>

text \<open>
  Every request a store sends to the remote store is recorded, oldest first.
\<close>

datatype request =
    InsertMission string CreateMissionInput
  | UpdateMission string UpdateMissionInput
  | InsertHistory MissionHistory
  | SelectHistory string
  | SelectProfile string
  | UpdateProfile string ProfileUpdates
  | UpdateObjective string UpdateObjectiveInput

text \<open>
  The \<open>supabase\<close> client, as an injected interface: what the remote store answers to
  each request, \<open>Inl\<close> (or \<open>Some\<close>) carrying the error's message. Its answers are not
  constrained.
\<close>

record supabase =
  remote_insert_mission :: "string \<Rightarrow> CreateMissionInput \<Rightarrow> string + Mission"
  remote_update_mission :: "string \<Rightarrow> UpdateMissionInput \<Rightarrow> string + Mission"
  remote_insert_history :: "MissionHistory \<Rightarrow> string option"
  remote_select_history :: "string \<Rightarrow> string + MissionHistory list"
  remote_select_profile :: "string \<Rightarrow> string + ProfileRow"
  remote_update_profile :: "string \<Rightarrow> ProfileUpdates \<Rightarrow> string option"
  remote_update_objective :: "string \<Rightarrow> UpdateObjectiveInput \<Rightarrow> string + Objective"

text \<open>
  The three global stores (missions, profile, objectives) side by side, and the log of
  requests.
\<close>

record world =
  missions :: "Mission list"
  missionHistory :: "MissionHistory list"
  m_loading :: bool
  m_error :: "string option"
  profile :: "UserProfile option"
  p_loading :: bool
  p_error :: "string option"
  objectives :: "Objective list"
  o_loading :: bool
  o_error :: "string option"
  requests :: "request list"

definition send :: "request \<Rightarrow> world \<Rightarrow> world" where
  "send r w = w\<lparr>requests := requests w @ [r]\<rparr>"

subsection \<open>Profile store\<close>

text \<open>
  \<open>fetchProfile\<close>: \<open>data.level || 1\<close>, \<open>data.xp || 0\<close> and
  \<open>data.stats || { strength: 0, intelligence: 0, motivation: 0 }\<close>. The fallbacks apply to
  \<open>null\<close> and to 0; an object, the empty one included, is truthy and is kept.
\<close>

definition fetchProfile :: "supabase \<Rightarrow> string \<Rightarrow> world \<Rightarrow> world" where
  "fetchProfile sb userId w =
     (let w1 = send (SelectProfile userId) (w\<lparr>p_loading := True, p_error := None\<rparr>)
      in case remote_select_profile sb userId of
           Inl msg \<Rightarrow> w1\<lparr>p_error := Some msg, p_loading := False\<rparr>
         | Inr data \<Rightarrow>
             w1\<lparr>profile :=
                   Some \<lparr>profile_id = row_id data,
                         username = row_username data,
                         level = (case row_level data of
                                    None \<Rightarrow> 1
                                  | Some l \<Rightarrow> if l = 0 then 1 else l),
                         xp = (case row_xp data of None \<Rightarrow> 0 | Some x \<Rightarrow> x),
                         stats = (case row_stats data of
                                    None \<Rightarrow> \<lparr>strength = Number 0, intelligence = Number 0,
                                              motivation = Number 0\<rparr>
                                  | Some st \<Rightarrow> st)\<rparr>,
                 p_loading := False\<rparr>)"

text \<open>\<open>{ ...profile, ...updates }\<close>\<close>

definition applyUpdates :: "UserProfile \<Rightarrow> ProfileUpdates \<Rightarrow> UserProfile" where
  "applyUpdates p u =
     p\<lparr>username := (case set_username u of None \<Rightarrow> username p | Some n \<Rightarrow> Some n),
       level := (case set_level u of None \<Rightarrow> level p | Some l \<Rightarrow> l),
       xp := (case set_xp u of None \<Rightarrow> xp p | Some x \<Rightarrow> x),
       stats := (case set_stats u of None \<Rightarrow> stats p | Some st \<Rightarrow> st)\<rparr>"

definition updateProfile :: "supabase \<Rightarrow> ProfileUpdates \<Rightarrow> world \<Rightarrow> world" where
  "updateProfile sb updates w =
     (case profile w of
        None \<Rightarrow> w
      | Some p \<Rightarrow>
          (let w1 = send (UpdateProfile (profile_id p) updates)
                      (w\<lparr>p_loading := True, p_error := None\<rparr>)
           in (case remote_update_profile sb (profile_id p) updates of
                 Some msg \<Rightarrow> w1\<lparr>p_error := Some msg, p_loading := False\<rparr>
               | None \<Rightarrow>
                   w1\<lparr>profile := Some (applyUpdates p updates), p_loading := False\<rparr>)))"

definition statKeys :: "stat_key list" where
  "statKeys = [key_strength, key_intelligence, key_motivation]"

text \<open>
  \<open>{ ...profile.stats, [randomStat]: profile.stats[randomStat] + 1 }\<close>, the sum being the
  JavaScript one: for an absent key it is \<open>undefined + 1\<close>, that is \<open>NaN\<close>. An index
  outside \<open>statKeys\<close> gives the key \<open>undefined\<close> and leaves the three stats as they are.
\<close>

definition incrementStat :: "stats \<Rightarrow> int \<Rightarrow> stats" where
  "incrementStat st i =
     (if 0 \<le> i \<and> i < int (length statKeys) then
        (case statKeys ! nat i of
           key_strength \<Rightarrow> st\<lparr>strength := js_plus (strength st) (Number 1)\<rparr>
         | key_intelligence \<Rightarrow> st\<lparr>intelligence := js_plus (intelligence st) (Number 1)\<rparr>
         | key_motivation \<Rightarrow> st\<lparr>motivation := js_plus (motivation st) (Number 1)\<rparr>)
      else st)"

text \<open>
  \<open>addXP\<close>; \<open>rnd\<close> is what \<open>Math.random()\<close> returns. A \<open>NaN\<close> level compares false.
\<close>

definition addXP :: "supabase \<Rightarrow> int \<Rightarrow> real \<Rightarrow> world \<Rightarrow> world" where
  "addXP sb amount rnd w =
     (case profile w of
        None \<Rightarrow> w
      | Some p \<Rightarrow>
          let newXP = xp p + amount;
              newLevel = calculateLevel newXP
          in if (case newLevel of None \<Rightarrow> False | Some l \<Rightarrow> l > level p) then
               let newStats = incrementStat (stats p) \<lfloor>rnd * real (length statKeys)\<rfloor>
               in updateProfile sb
                    \<lparr>set_username = None, set_level = newLevel, set_xp = Some newXP,
                     set_stats = Some newStats\<rparr> w
             else
               updateProfile sb
                 \<lparr>set_username = None, set_level = None, set_xp = Some newXP,
                  set_stats = None\<rparr> w)"

subsection \<open>Missions store\<close>

definition fetchMissionHistory :: "supabase \<Rightarrow> string \<Rightarrow> world \<Rightarrow> world" where
  "fetchMissionHistory sb userId w =
     (let w1 = send (SelectHistory userId) (w\<lparr>m_loading := True, m_error := None\<rparr>)
      in case remote_select_history sb userId of
           Inl msg \<Rightarrow> w1\<lparr>m_error := Some msg, m_loading := False\<rparr>
         | Inr data \<Rightarrow> w1\<lparr>missionHistory := data, m_loading := False\<rparr>)"

definition trackMissionHistory ::
  "supabase \<Rightarrow> string \<Rightarrow> string \<Rightarrow> history_action \<Rightarrow> mission_status option \<Rightarrow>
   mission_status option \<Rightarrow> int \<Rightarrow> string option \<Rightarrow> world \<Rightarrow> world" where
  "trackMissionHistory sb missionId userId action oldStatus newStatus xpGained notes w =
     (let row = \<lparr>h_mission_id = missionId, h_user_id = userId, h_action = action,
                 h_old_status = oldStatus, h_new_status = newStatus,
                 h_xp_gained = xpGained, h_notes = notes\<rparr>;
          w1 = send (InsertHistory row) w
      in case remote_insert_history sb row of
           Some msg \<Rightarrow> w1
         | None \<Rightarrow> fetchMissionHistory sb userId w1)"

definition createMission :: "supabase \<Rightarrow> string \<Rightarrow> CreateMissionInput \<Rightarrow> world \<Rightarrow> world" where
  "createMission sb userId input w =
     (let w1 = send (InsertMission userId input) (w\<lparr>m_loading := True, m_error := None\<rparr>)
      in case remote_insert_mission sb userId input of
           Inl msg \<Rightarrow> w1\<lparr>m_error := Some msg, m_loading := False\<rparr>
         | Inr data \<Rightarrow>
             trackMissionHistory sb (mission_id data) userId act_created None (Some pending) 0
               None (w1\<lparr>missions := data # missions w1, m_loading := False\<rparr>))"

text \<open>
  \<open>updateMission\<close>; when the mission is not in the local list it returns from inside the
  \<open>try\<close>, after \<open>loading\<close> was set.
\<close>

definition updateMission :: "supabase \<Rightarrow> string \<Rightarrow> UpdateMissionInput \<Rightarrow> world \<Rightarrow> world" where
  "updateMission sb mid updates w =
     (let w1 = w\<lparr>m_loading := True, m_error := None\<rparr>
      in case find (\<lambda>m. mission_id m = mid) (missions w1) of
           None \<Rightarrow> w1
         | Some mission \<Rightarrow>
             (let w2 = send (UpdateMission mid updates) w1
              in (case remote_update_mission sb mid updates of
                    Inl msg \<Rightarrow> w2\<lparr>m_error := Some msg, m_loading := False\<rparr>
                  | Inr data \<Rightarrow>
                      (let w3 = w2\<lparr>missions :=
                                     map (\<lambda>m. if mission_id m = mid then data else m)
                                       (missions w2),
                                   m_loading := False\<rparr>
                       in (case upd_status updates of
                             None \<Rightarrow> w3
                           | Some st \<Rightarrow>
                               if st \<noteq> status mission then
                                 trackMissionHistory sb mid (user_id mission) act_updated
                                   (Some (status mission)) (Some st) 0 None w3
                               else w3)))))"

definition statusOnly :: "mission_status \<Rightarrow> UpdateMissionInput" where
  "statusOnly st =
     \<lparr>upd_title = None, upd_description = None, upd_category = None, upd_difficulty = None,
      upd_xp_reward = None, upd_deadline = None, upd_status = Some st\<rparr>"

text \<open>
  \<open>markMissionComplete\<close>: the status update, then \<open>addXP(mission.xp_reward)\<close> on the
  profile store, then the history entry; \<open>mission\<close> is the object found at entry.
\<close>

definition markMissionComplete :: "supabase \<Rightarrow> string \<Rightarrow> real \<Rightarrow> world \<Rightarrow> world" where
  "markMissionComplete sb mid rnd w =
     (case find (\<lambda>m. mission_id m = mid) (missions w) of
        None \<Rightarrow> w
      | Some mission \<Rightarrow>
          let w1 = updateMission sb mid (statusOnly completed) w;
              w2 = addXP sb (xp_reward mission) rnd w1
          in trackMissionHistory sb mid (user_id mission) act_completed
               (Some (status mission)) (Some completed) (xp_reward mission) None w2)"

text \<open>
  \<open>handleCompleteMission\<close> of the missions display: \<open>markMissionComplete\<close>, then
  \<open>addXP(missions.find(...)?.xp_reward || 0)\<close> on the list the component rendered with
  (the store's list at entry). \<open>rnd1\<close> and \<open>rnd2\<close> are the two reads of \<open>Math.random()\<close>.
\<close>

definition handleCompleteMission ::
  "supabase \<Rightarrow> string \<Rightarrow> real \<Rightarrow> real \<Rightarrow> world \<Rightarrow> world" where
  "handleCompleteMission sb missionId rnd1 rnd2 w =
     (let rendered = missions w;
          w1 = markMissionComplete sb missionId rnd1 w
      in addXP sb
           (case find (\<lambda>m. mission_id m = missionId) rendered of
              None \<Rightarrow> 0
            | Some m \<Rightarrow> xp_reward m)
           rnd2 w1)"

subsection \<open>Daily mission generation\<close>

text \<open>\<open>new Date(ms).toISOString().split('T')[0]\<close>, as a UTC day number.\<close>

definition toISODate :: "int \<Rightarrow> int" where
  "toISODate ms = ms div (24 * 60 * 60 * 1000)"

text \<open>
  The first loop of \<open>generateDailyMissions\<close>. \<open>rnd c\<close> and \<open>dateNow c\<close> are what
  \<open>Math.random()\<close> and \<open>Date.now()\<close> return in the iteration for category \<open>c\<close>. Reading
  a field of \<open>templates[i]\<close> for an index outside the array throws; the \<open>catch\<close> block
  receives the message.
\<close>

fun newMissions ::
  "UserProfile \<Rightarrow> (category \<Rightarrow> real) \<Rightarrow> (category \<Rightarrow> int) \<Rightarrow> category list \<Rightarrow>
   string + CreateMissionInput list" where
  "newMissions prof rnd dateNow [] = Inr []"
| "newMissions prof rnd dateNow (c # cs) =
     (let templates = getMissionTemplates c;
          i = \<lfloor>rnd c * real (length templates)\<rfloor>
      in if 0 \<le> i \<and> i < int (length templates) then
           let randomTemplate = templates ! nat i;
               difficulty = selectDifficulty (level prof) (stats prof);
               xpReward = getXPReward difficulty (level prof);
               input = \<lparr>in_title = tpl_title randomTemplate,
                        in_description = Some (tpl_description randomTemplate),
                        in_category = c,
                        in_difficulty = difficulty,
                        in_xp_reward = xpReward,
                        in_deadline = Some (toISODate (dateNow c + 24 * 60 * 60 * 1000))\<rparr>
           in (case newMissions prof rnd dateNow cs of
                 Inl msg \<Rightarrow> Inl msg
               | Inr rest \<Rightarrow> Inr (input # rest))
         else Inl ''Cannot read properties of undefined'')"

text \<open>
  The input the loop body builds for category \<open>c\<close> when the template index is inside the
  catalog (five templates per category).
\<close>

definition dailyInput ::
  "UserProfile \<Rightarrow> (category \<Rightarrow> real) \<Rightarrow> (category \<Rightarrow> int) \<Rightarrow> category \<Rightarrow> CreateMissionInput" where
  "dailyInput prof rnd dateNow c =
     \<lparr>in_title = tpl_title (getMissionTemplates c ! nat \<lfloor>rnd c * 5\<rfloor>),
      in_description = Some (tpl_description (getMissionTemplates c ! nat \<lfloor>rnd c * 5\<rfloor>)),
      in_category = c,
      in_difficulty = selectDifficulty (level prof) (stats prof),
      in_xp_reward = getXPReward (selectDifficulty (level prof) (stats prof)) (level prof),
      in_deadline = Some (toISODate (dateNow c + 24 * 60 * 60 * 1000))\<rparr>"

definition generateDailyMissions ::
  "supabase \<Rightarrow> string \<Rightarrow> UserProfile \<Rightarrow> Objective list \<Rightarrow> Schedule list \<Rightarrow>
   Date \<Rightarrow> (category \<Rightarrow> real) \<Rightarrow> (category \<Rightarrow> int) \<Rightarrow> world \<Rightarrow> world" where
  "generateDailyMissions sb userId prof objs schedules now rnd dateNow w =
     (let w1 = w\<lparr>m_loading := True, m_error := None\<rparr>
      in if \<not> checkScheduleAvailability now schedules then w1\<lparr>m_loading := False\<rparr>
         else
           (case newMissions prof rnd dateNow [sport, studies, routine] of
              Inl msg \<Rightarrow> w1\<lparr>m_error := Some msg, m_loading := False\<rparr>
            | Inr inputs \<Rightarrow> (fold (createMission sb userId) inputs w1)\<lparr>m_loading := False\<rparr>))"

subsection \<open>Objectives store\<close>

definition updateObjective ::
  "supabase \<Rightarrow> string \<Rightarrow> UpdateObjectiveInput \<Rightarrow> world \<Rightarrow> world" where
  "updateObjective sb oid updates w =
     (let w1 = send (UpdateObjective oid updates) (w\<lparr>o_loading := True, o_error := None\<rparr>)
      in case remote_update_objective sb oid updates of
           Inl msg \<Rightarrow> w1\<lparr>o_error := Some msg, o_loading := False\<rparr>
         | Inr data \<Rightarrow>
             w1\<lparr>objectives :=
                   map (\<lambda>obj. if objective_id obj = oid then data else obj) (objectives w1),
                 o_loading := False\<rparr>)"

text \<open>\<open>incrementProgress(id, amount = 1)\<close>: an omitted amount is \<open>None\<close>.\<close>

definition incrementProgress :: "supabase \<Rightarrow> string \<Rightarrow> int option \<Rightarrow> world \<Rightarrow> world" where
  "incrementProgress sb oid amount w =
     (case find (\<lambda>obj. objective_id obj = oid) (objectives w) of
        None \<Rightarrow> w
      | Some objective \<Rightarrow>
          let a = (case amount of None \<Rightarrow> 1 | Some n \<Rightarrow> n);
              newValue = min (current_value objective + a) (target_value objective)
          in updateObjective sb oid
               \<lparr>uo_title = None, uo_target_value = None, uo_current_value = Some newValue,
                uo_status = None\<rparr> w)"

section \<open>Reading the request log; the remote store's answers\<close>

text \<open>The mission-creation requests of a log, in order: the user and the input of each.\<close>

definition creationRequests :: "request list \<Rightarrow> (string \<times> CreateMissionInput) list" where
  "creationRequests rs =
     concat (map (\<lambda>r. case r of InsertMission u i \<Rightarrow> [(u, i)] | _ \<Rightarrow> []) rs)"

text \<open>The history rows a log asks the remote store to insert, in order.\<close>

definition historyRequests :: "request list \<Rightarrow> MissionHistory list" where
  "historyRequests rs =
     concat (map (\<lambda>r. case r of InsertHistory h \<Rightarrow> [h] | _ \<Rightarrow> []) rs)"

text \<open>
  Modelled from the spec: the remote store is an external service, not part of the
  repository; by section 6 of the specification an update returns the updated record or
  an error. \<open>patchObjective obj u\<close> is the stored row \<open>obj\<close> with the fields that \<open>u\<close>
  submits written over it.
\<close>

definition patchObjective :: "Objective \<Rightarrow> UpdateObjectiveInput \<Rightarrow> Objective" where
  "patchObjective obj u =
     obj\<lparr>o_title := (case uo_title u of None \<Rightarrow> o_title obj | Some t \<Rightarrow> t),
         target_value := (case uo_target_value u of None \<Rightarrow> target_value obj | Some t \<Rightarrow> t),
         current_value := (case uo_current_value u of None \<Rightarrow> current_value obj | Some c \<Rightarrow> c),
         o_status := (case uo_status u of None \<Rightarrow> o_status obj | Some st \<Rightarrow> st)\<rparr>"

subsection \<open>Example data\<close>

text \<open>
  A user at level 1 with no xp and the three stats at 0, one pending hard mission worth
  102 xp, one objective at 0 of 10, and a remote store that accepts every request and
  returns the written row; its \<open>profiles\<close> row is the one sign-up leaves, where the
  trigger \<open>handle_new_user\<close> inserts \<open>id\<close> and \<open>username\<close> and the columns take their
  defaults \<open>level = 1\<close>, \<open>xp = 0\<close>, \<open>stats = {}\<close>.
\<close>

definition exampleProfile :: UserProfile where
  "exampleProfile =
     \<lparr>profile_id = ''u1'', username = None, level = 1, xp = 0,
      stats = \<lparr>strength = Number 0, intelligence = Number 0, motivation = Number 0\<rparr>\<rparr>"

definition exampleMission :: Mission where
  "exampleMission =
     \<lparr>mission_id = ''m1'', user_id = ''u1'', title = ''Morning Run'',
      description = Some ''Complete a 30-minute run'', category = sport, difficulty = hard,
      xp_reward = 102, deadline = None, status = pending\<rparr>"

definition exampleObjective :: Objective where
  "exampleObjective =
     \<lparr>objective_id = ''o1'', o_title = ''Read'', target_value = 10, current_value = 0,
      o_status = obj_active\<rparr>"

definition exampleWorld :: world where
  "exampleWorld =
     \<lparr>missions = [exampleMission], missionHistory = [], m_loading = False, m_error = None,
      profile = Some exampleProfile, p_loading = False, p_error = None,
      objectives = [exampleObjective], o_loading = False, o_error = None,
      requests = []\<rparr>"

definition exampleRemote :: supabase where
  "exampleRemote =
     \<lparr>remote_insert_mission =
        (\<lambda>uid i. Inr \<lparr>mission_id = ''m2'', user_id = uid, title = in_title i,
                       description = in_description i, category = in_category i,
                       difficulty = in_difficulty i, xp_reward = in_xp_reward i,
                       deadline = in_deadline i, status = pending\<rparr>),
      remote_update_mission =
        (\<lambda>mid u. Inr (exampleMission\<lparr>status :=
                         (case upd_status u of None \<Rightarrow> pending | Some st \<Rightarrow> st)\<rparr>)),
      remote_insert_history = (\<lambda>row. None),
      remote_select_history = (\<lambda>uid. Inr []),
      remote_select_profile =
        (\<lambda>uid. Inr \<lparr>row_id = uid, row_username = None, row_level = Some 1, row_xp = Some 0,
                     row_stats = Some \<lparr>strength = Undefined, intelligence = Undefined,
                                       motivation = Undefined\<rparr>\<rparr>),
      remote_update_profile = (\<lambda>pid u. None),
      remote_update_objective = (\<lambda>oid u. Inr (patchObjective exampleObjective u))\<rparr>"

section \<open>Leveling function\<close>

lemma floor_sqrt_eq:
  fixes x :: real and k :: int
  assumes k: "0 \<le> k" and lo: "(of_int k)\<^sup>2 \<le> x" and hi: "x < (of_int k + 1)\<^sup>2"
  shows "\<lfloor>sqrt x\<rfloor> = k"
proof (rule floor_unique)
  show "of_int k \<le> sqrt x"
    using lo by (rule real_le_rsqrt)
  have "(0::real) \<le> of_int k + 1"
    using k by simp
  then show "sqrt x < of_int k + 1"
    using hi by (rule real_less_lsqrt)
qed

lemma calculateLevel_between:
  assumes "0 \<le> k" and "100 * k\<^sup>2 \<le> x" and "x < 100 * (k + 1)\<^sup>2"
  shows "calculateLevel x = Some (k + 1)"
proof -
  have nonneg: "0 \<le> x"
  proof -
    have "(0::int) \<le> 100 * k\<^sup>2" by simp
    with assms(2) show ?thesis by linarith
  qed
  have "real_of_int (100 * k\<^sup>2) \<le> real_of_int x"
    using assms(2) by (simp only: of_int_le_iff)
  then have lo: "(of_int k)\<^sup>2 \<le> real_of_int x / 100"
    by simp
  have "real_of_int x < real_of_int (100 * (k + 1)\<^sup>2)"
    using assms(3) by (simp only: of_int_less_iff)
  then have hi: "real_of_int x / 100 < (of_int k + 1)\<^sup>2"
    by simp
  have "\<lfloor>sqrt (real_of_int x / 100)\<rfloor> = k"
    using assms(1) lo hi by (rule floor_sqrt_eq)
  with nonneg show ?thesis
    by (simp add: calculateLevel_def)
qed

lemma calculateLevel_mono:
  assumes "0 \<le> a" and "a \<le> b"
  shows "\<exists>la lb. calculateLevel a = Some la \<and> calculateLevel b = Some lb \<and> la \<le> lb"
proof -
  have "real_of_int a / 100 \<le> real_of_int b / 100"
    using assms(2) by simp
  then have "sqrt (real_of_int a / 100) \<le> sqrt (real_of_int b / 100)"
    by (rule real_sqrt_le_mono)
  then have "\<lfloor>sqrt (real_of_int a / 100)\<rfloor> \<le> \<lfloor>sqrt (real_of_int b / 100)\<rfloor>"
    by (rule floor_mono)
  with assms show ?thesis
    by (simp add: calculateLevel_def)
qed

lemma calculateLevel_0: "calculateLevel 0 = Some 1"
  using calculateLevel_between [of 0 0] by simp

lemma calculateLevel_100: "calculateLevel 100 = Some 2"
  using calculateLevel_between [of 1 100] by simp

lemma calculateLevel_400: "calculateLevel 400 = Some 3"
  using calculateLevel_between [of 2 400] by simp

text \<open>
  Claim C2. For every non-negative integer xp, \<open>calculateLevel(xp)\<close> is
  \<open>floor(sqrt(xp / 100)) + 1\<close>; it is monotonic non-decreasing in xp, and its values at
  0, 100 and 400 are 1, 2 and 3.
\<close>

theorem calculateLevel_formula:
  "(\<forall>x. 0 \<le> x \<longrightarrow> calculateLevel x = Some (\<lfloor>sqrt (real_of_int x / 100)\<rfloor> + 1))
   \<and> (\<forall>a b. 0 \<le> a \<and> a \<le> b \<longrightarrow>
         (\<exists>la lb. calculateLevel a = Some la \<and> calculateLevel b = Some lb \<and> la \<le> lb))
   \<and> calculateLevel 0 = Some 1
   \<and> calculateLevel 100 = Some 2
   \<and> calculateLevel 400 = Some 3"
proof (intro conjI allI impI)
  fix x :: int
  assume "0 \<le> x"
  then show "calculateLevel x = Some (\<lfloor>sqrt (real_of_int x / 100)\<rfloor> + 1)"
    by (simp add: calculateLevel_def)
next
  fix a b :: int
  assume "0 \<le> a \<and> a \<le> b"
  then show "\<exists>la lb. calculateLevel a = Some la \<and> calculateLevel b = Some lb \<and> la \<le> lb"
    using calculateLevel_mono by blast
qed (rule calculateLevel_0 calculateLevel_100 calculateLevel_400)+

theorem calculateLevel_formula_witness:
  "calculateLevel 250 = Some (\<lfloor>sqrt (real_of_int 250 / 100)\<rfloor> + 1)
   \<and> (\<exists>la lb. calculateLevel 99 = Some la \<and> calculateLevel 100 = Some lb \<and> la \<le> lb)"
proof -
  have h1: "(0::int) \<le> 250" by simp
  have h2: "(0::int) \<le> 99 \<and> (99::int) \<le> 100" by simp
  from calculateLevel_formula h1 h2 show ?thesis by blast
qed

section \<open>Reward calculator\<close>

lemma getXPReward_easy: "getXPReward easy l = l + 9"
proof -
  have "(10::real) * (1 + (of_int l - 1) * 0.1) * 1 = of_int (l + 9)"
    by (simp add: field_simps)
  then show ?thesis
    by (simp only: getXPReward_def Let_def baseXP.simps getDifficultyMultiplier.simps floor_of_int)
qed

text \<open>
  Claim C3. For every difficulty and every integer level \<open>\<ge> 1\<close>, \<open>getXPReward\<close> is
  \<open>floor(base * (1 + (level - 1) * 0.1) * mult)\<close> with base 10, 26, 51 and multiplier
  1, 1.5, 2 for easy, medium, hard; \<open>getXPReward('easy', 1) = 10\<close> and
  \<open>getXPReward('hard', 1) = 102\<close>.
\<close>

theorem getXPReward_formula:
  assumes "1 \<le> l"
  shows "getXPReward d l =
           \<lfloor>(case d of easy \<Rightarrow> 10 | medium \<Rightarrow> 26 | hard \<Rightarrow> 51)
              * (1 + (real_of_int l - 1) * 0.1)
              * (case d of easy \<Rightarrow> 1 | medium \<Rightarrow> 1.5 | hard \<Rightarrow> 2)\<rfloor>
         \<and> getXPReward easy 1 = 10 \<and> getXPReward hard 1 = 102"
proof (intro conjI)
  show "getXPReward d l =
           \<lfloor>(case d of easy \<Rightarrow> 10 | medium \<Rightarrow> 26 | hard \<Rightarrow> 51)
              * (1 + (real_of_int l - 1) * 0.1)
              * (case d of easy \<Rightarrow> 1 | medium \<Rightarrow> 1.5 | hard \<Rightarrow> 2)\<rfloor>"
    by (cases d)
      (simp_all only: getXPReward_def Let_def baseXP.simps getDifficultyMultiplier.simps
         difficulty.case)
  show "getXPReward easy 1 = 10"
    by (simp add: getXPReward_def)
  show "getXPReward hard 1 = 102"
    by (simp add: getXPReward_def)
qed

theorem getXPReward_formula_witness:
  "(1::int) \<le> 4 \<and> getXPReward medium 4 = 50 \<and> getXPReward easy 1 = 10
   \<and> getXPReward hard 1 = 102"
proof -
  have h: "(1::int) \<le> 4" by simp
  have "\<lfloor>(26::real) * (1 + (real_of_int 4 - 1) * 0.1) * 1.5\<rfloor> = 50"
    by (rule floor_unique) simp_all
  with getXPReward_formula [OF h, of medium] h show ?thesis
    by simp
qed

section \<open>Difficulty selector\<close>

text \<open>
  Claim C4. \<open>selectDifficulty(level, stats)\<close> follows the OR-based rule, evaluated in
  order, with \<open>statLevel = (strength + intelligence + motivation) / 30\<close>: easy if
  \<open>level \<le> 3\<close> or \<open>statLevel < 0.5\<close>; else medium if \<open>level \<le> 7\<close> or
  \<open>statLevel < 1.5\<close>; else hard. This is stated for every stats record of three numbers,
  and for every stats object with the sum, the quotient and the comparisons of JavaScript
  (a stat level that is \<open>NaN\<close> makes both stat tests false).
\<close>

theorem selectDifficulty_rule:
  "selectDifficulty l \<lparr>strength = Number s, intelligence = Number i, motivation = Number m\<rparr> =
     (if l \<le> 3 \<or> real_of_int (s + i + m) / 30 < 0.5 then easy
      else if l \<le> 7 \<or> real_of_int (s + i + m) / 30 < 1.5 then medium
      else hard)
   \<and> selectDifficulty l st =
     (if l \<le> 3
         \<or> js_less (js_divide (js_plus (js_plus (strength st) (intelligence st)) (motivation st)) 30)
              0.5
      then easy
      else if l \<le> 7
         \<or> js_less (js_divide (js_plus (js_plus (strength st) (intelligence st)) (motivation st)) 30)
              1.5
      then medium
      else hard)"
  by (simp add: selectDifficulty_def Let_def js_plus_def js_divide_def js_less_def)

lemma selectDifficulty_thresholds:
  "selectDifficulty l \<lparr>strength = Number s, intelligence = Number i, motivation = Number m\<rparr> =
     (if l \<le> 3 \<or> s + i + m < 15 then easy
      else if l \<le> 7 \<or> s + i + m < 45 then medium
      else hard)"
proof -
  let ?t = "s + i + m"
  have a: "real_of_int ?t / 30 < 0.5 \<longleftrightarrow> ?t < 15"
    by (simp add: field_simps) linarith
  have b: "real_of_int ?t / 30 < 1.5 \<longleftrightarrow> ?t < 45"
    by (simp add: field_simps) linarith
  have "selectDifficulty l \<lparr>strength = Number s, intelligence = Number i, motivation = Number m\<rparr> =
     (if l \<le> 3 \<or> real_of_int ?t / 30 < 0.5 then easy
      else if l \<le> 7 \<or> real_of_int ?t / 30 < 1.5 then medium
      else hard)"
    by (simp add: selectDifficulty_def Let_def js_plus_def js_divide_def js_less_def)
  then show ?thesis
    unfolding a b .
qed

lemma selectDifficulty_empty_stats:
  "selectDifficulty l \<lparr>strength = Undefined, intelligence = Undefined, motivation = Undefined\<rparr> =
     (if l \<le> 3 then easy else if l \<le> 7 then medium else hard)"
  by (simp add: selectDifficulty_def Let_def js_plus_def js_divide_def js_less_def)

text \<open>
  Claim C5 (as stated). \<open>selectDifficulty(2, {0,0,0})\<close> is easy and
  \<open>selectDifficulty(10, {10,10,10})\<close> is hard. The second half fails: the stat level is
  \<open>30 / 30 = 1 < 1.5\<close>, so the second test of the rule returns medium.
\<close>

theorem selectDifficulty_examples_counterexample:
  "\<not> (selectDifficulty 2
          \<lparr>strength = Number 0, intelligence = Number 0, motivation = Number 0\<rparr> = easy
       \<and> selectDifficulty 10
          \<lparr>strength = Number 10, intelligence = Number 10, motivation = Number 10\<rparr> = hard)"
  by (simp add: selectDifficulty_thresholds)

text \<open>
  Claim C5 (amended). \<open>selectDifficulty(2, {0,0,0})\<close> is easy and
  \<open>selectDifficulty(10, {10,10,10})\<close> is medium.
\<close>

theorem selectDifficulty_examples:
  "selectDifficulty 2
     \<lparr>strength = Number 0, intelligence = Number 0, motivation = Number 0\<rparr> = easy
   \<and> selectDifficulty 10
     \<lparr>strength = Number 10, intelligence = Number 10, motivation = Number 10\<rparr> = medium"
  by (simp add: selectDifficulty_thresholds)

section \<open>Schedule availability gate\<close>

lemma coversNow_iff:
  "coversNow now h s \<longleftrightarrow>
     is_active s \<and> start_date s \<le> getTime now
     \<and> (case end_date s of None \<Rightarrow> True | Some e \<Rightarrow> getTime now \<le> e)
     \<and> 8 \<le> h \<and> h \<le> 20"
  by (auto simp: coversNow_def Let_def split: option.splits)

text \<open>
  Claim C6. For every list of schedules and every time \<open>now\<close>, the availability gate is
  true if and only if at least one schedule is active, has \<open>now \<ge> start_date\<close>, has no
  \<open>end_date\<close> or \<open>now \<le> end_date\<close>, and the hour of day of \<open>now\<close> lies in 8..20
  inclusive. In particular it is false when every schedule is inactive, and false outside
  the 8..20 window whatever the schedules.
\<close>

theorem checkScheduleAvailability_iff:
  "(checkScheduleAvailability now schedules \<longleftrightarrow>
      (\<exists>s \<in> set schedules.
         is_active s \<and> start_date s \<le> getTime now
         \<and> (case end_date s of None \<Rightarrow> True | Some e \<Rightarrow> getTime now \<le> e)
         \<and> 8 \<le> getHours now \<and> getHours now \<le> 20))
   \<and> ((\<forall>s \<in> set schedules. \<not> is_active s) \<longrightarrow> \<not> checkScheduleAvailability now schedules)
   \<and> ((getHours now < 8 \<or> 20 < getHours now) \<longrightarrow> \<not> checkScheduleAvailability now schedules)"
  by (auto simp: checkScheduleAvailability_def Let_def list_ex_iff coversNow_iff)

theorem checkScheduleAvailability_iff_witness:
  "checkScheduleAvailability \<lparr>getTime = 1000, getHours = 10\<rparr>
     [\<lparr>schedule_id = ''s1'', frequency = daily, start_date = 0, end_date = Some 2000,
       is_active = True\<rparr>]
   \<and> \<not> checkScheduleAvailability \<lparr>getTime = 1000, getHours = 10\<rparr>
       [\<lparr>schedule_id = ''s1'', frequency = daily, start_date = 0, end_date = Some 2000,
         is_active = False\<rparr>]
   \<and> \<not> checkScheduleAvailability \<lparr>getTime = 1000, getHours = 21\<rparr>
       [\<lparr>schedule_id = ''s1'', frequency = daily, start_date = 0, end_date = Some 2000,
         is_active = True\<rparr>]"
proof (intro conjI)
  show "checkScheduleAvailability \<lparr>getTime = 1000, getHours = 10\<rparr>
     [\<lparr>schedule_id = ''s1'', frequency = daily, start_date = 0, end_date = Some 2000,
       is_active = True\<rparr>]"
    by (rule iffD2 [OF conjunct1 [OF checkScheduleAvailability_iff]]) simp
  show "\<not> checkScheduleAvailability \<lparr>getTime = 1000, getHours = 10\<rparr>
       [\<lparr>schedule_id = ''s1'', frequency = daily, start_date = 0, end_date = Some 2000,
         is_active = False\<rparr>]"
    by (rule mp [OF conjunct1 [OF conjunct2 [OF checkScheduleAvailability_iff]]]) simp
  show "\<not> checkScheduleAvailability \<lparr>getTime = 1000, getHours = 21\<rparr>
       [\<lparr>schedule_id = ''s1'', frequency = daily, start_date = 0, end_date = Some 2000,
         is_active = True\<rparr>]"
    by (rule mp [OF conjunct2 [OF conjunct2 [OF checkScheduleAvailability_iff]]]) simp
qed

section \<open>Granting xp: addXP\<close>

lemma updateProfile_Some:
  assumes "profile w = Some p"
  shows "updateProfile sb u w =
     (case remote_update_profile sb (profile_id p) u of
        Some msg \<Rightarrow> w\<lparr>p_loading := False, p_error := Some msg,
                     requests := requests w @ [UpdateProfile (profile_id p) u]\<rparr>
      | None \<Rightarrow> w\<lparr>profile := Some (applyUpdates p u), p_loading := False, p_error := None,
                   requests := requests w @ [UpdateProfile (profile_id p) u]\<rparr>)"
  using assms by (simp add: updateProfile_def send_def Let_def split: option.splits)

lemma incrementStat_cases:
  assumes "0 \<le> rnd" "rnd < 1"
  shows "incrementStat st \<lfloor>rnd * real (length statKeys)\<rfloor> =
     (if rnd < 1/3 then st\<lparr>strength := js_plus (strength st) (Number 1)\<rparr>
      else if rnd < 2/3 then st\<lparr>intelligence := js_plus (intelligence st) (Number 1)\<rparr>
      else st\<lparr>motivation := js_plus (motivation st) (Number 1)\<rparr>)"
proof -
  consider "rnd < 1/3" | "1/3 \<le> rnd" "rnd < 2/3" | "2/3 \<le> rnd"
    by linarith
  then show ?thesis
  proof cases
    case 1
    then have "\<lfloor>rnd * 3\<rfloor> = 0" using assms by (intro floor_unique) simp_all
    with 1 show ?thesis by (simp add: incrementStat_def statKeys_def)
  next
    case 2
    then have "\<lfloor>rnd * 3\<rfloor> = 1" by (intro floor_unique) simp_all
    with 2 show ?thesis by (simp add: incrementStat_def statKeys_def)
  next
    case 3
    then have "\<lfloor>rnd * 3\<rfloor> = 2" using assms by (intro floor_unique) simp_all
    with 3 show ?thesis by (simp add: incrementStat_def statKeys_def)
  qed
qed

lemma addXP_Some:
  assumes "profile w = Some p"
  shows "addXP sb amount rnd w =
     updateProfile sb
       (case calculateLevel (xp p + amount) of
          None \<Rightarrow> \<lparr>set_username = None, set_level = None, set_xp = Some (xp p + amount),
                   set_stats = None\<rparr>
        | Some l \<Rightarrow>
            if level p < l then
              \<lparr>set_username = None, set_level = Some l, set_xp = Some (xp p + amount),
               set_stats = Some (incrementStat (stats p) \<lfloor>rnd * real (length statKeys)\<rfloor>)\<rparr>
            else
              \<lparr>set_username = None, set_level = None, set_xp = Some (xp p + amount),
               set_stats = None\<rparr>) w"
  using assms by (simp add: addXP_def Let_def split: option.splits)

lemma calculateLevel_SomeD: "calculateLevel x = Some l \<Longrightarrow> 0 \<le> x"
  by (simp add: calculateLevel_def split: if_splits)

lemma calculateLevel_102: "calculateLevel 102 = Some 2"
  using calculateLevel_between [of 1 102] by simp

lemma calculateLevel_204: "calculateLevel 204 = Some 2"
  using calculateLevel_between [of 1 204] by simp

lemma calculateLevel_10: "calculateLevel 10 = Some 1"
  using calculateLevel_between [of 0 10] by simp

lemma exampleWorld_profile: "profile exampleWorld = Some exampleProfile"
  by (simp add: exampleWorld_def)

lemma exampleRemote_accepts:
  "\<forall>u. remote_update_profile exampleRemote pid u = None"
  by (simp add: exampleRemote_def)

text \<open>
  What \<open>addXP\<close> leaves in the profile when the remote store accepts the update, with
  \<open>Math.random()\<close> in \<open>[0, 1)\<close>: on a level-up the stat picked by the third in which
  \<open>rnd\<close> falls becomes its JavaScript sum with 1, the other two stay; otherwise only xp
  changes.
\<close>

lemma addXP_profile:
  assumes prof: "profile w = Some p"
    and ok: "\<forall>u. remote_update_profile sb (profile_id p) u = None"
    and rnd: "0 \<le> rnd" "rnd < 1"
  shows "profile (addXP sb amount rnd w) =
     Some (case calculateLevel (xp p + amount) of
             None \<Rightarrow> p\<lparr>xp := xp p + amount\<rparr>
           | Some l \<Rightarrow>
               if level p < l then
                 p\<lparr>level := l, xp := xp p + amount,
                   stats :=
                     (if rnd < 1/3 then
                        (stats p)\<lparr>strength := js_plus (strength (stats p)) (Number 1)\<rparr>
                      else if rnd < 2/3 then
                        (stats p)\<lparr>intelligence := js_plus (intelligence (stats p)) (Number 1)\<rparr>
                      else
                        (stats p)\<lparr>motivation := js_plus (motivation (stats p)) (Number 1)\<rparr>)\<rparr>
               else p\<lparr>xp := xp p + amount\<rparr>)"
proof (cases "calculateLevel (xp p + amount)")
  case None
  with prof ok show ?thesis
    by (simp add: addXP_Some updateProfile_Some applyUpdates_def)
next
  case (Some l)
  show ?thesis
  proof (cases "level p < l")
    case True
    with Some prof ok show ?thesis
      by (simp add: addXP_Some updateProfile_Some applyUpdates_def incrementStat_cases [OF rnd])
  next
    case False
    with Some prof ok show ?thesis
      by (simp add: addXP_Some updateProfile_Some applyUpdates_def)
  qed
qed

text \<open>On a profile whose three stats are numbers, a level-up adds exactly 1 to one of them.\<close>

lemma addXP_stats_numbers:
  assumes prof: "profile w = Some p"
    and num: "stats p = \<lparr>strength = Number s, intelligence = Number i, motivation = Number m\<rparr>"
    and ok: "\<forall>u. remote_update_profile sb (profile_id p) u = None"
    and rnd: "0 \<le> rnd" "rnd < 1"
    and up: "calculateLevel (xp p + amount) = Some l" "level p < l"
  shows "map_option stats (profile (addXP sb amount rnd w)) =
     Some (if rnd < 1/3 then
             \<lparr>strength = Number (s + 1), intelligence = Number i, motivation = Number m\<rparr>
           else if rnd < 2/3 then
             \<lparr>strength = Number s, intelligence = Number (i + 1), motivation = Number m\<rparr>
           else
             \<lparr>strength = Number s, intelligence = Number i, motivation = Number (m + 1)\<rparr>)"
  using up num by (simp add: addXP_profile [OF prof ok rnd] js_plus_def)

lemma fetchProfile_example:
  "profile (fetchProfile exampleRemote ''u1'' exampleWorld) =
     Some \<lparr>profile_id = ''u1'', username = None, level = 1, xp = 0,
           stats = \<lparr>strength = Undefined, intelligence = Undefined, motivation = Undefined\<rparr>\<rparr>"
  by (simp add: fetchProfile_def send_def Let_def exampleRemote_def)

text \<open>
  Claim C9. For every profile and every amount granted by \<open>addXP\<close>: on a level-up exactly
  one of the three stats, chosen at random, is incremented by exactly 1 and the other two
  are unchanged; otherwise the stats are unchanged and only xp is updated. The code does
  otherwise on the profile that sign-up creates. Its \<open>stats\<close> column is \<open>{}\<close>, which
  \<open>fetchProfile\<close> keeps (its fallback to three zeros applies to \<open>null\<close> only), so
  \<open>profile.stats[randomStat] + 1\<close> is \<open>undefined + 1\<close>: the first level-up, at 102 xp,
  stores \<open>NaN\<close> in the chosen stat, whichever it is, and adds 1 to none.
\<close>

theorem addXP_default_profile_stats:
  "profile (fetchProfile exampleRemote ''u1'' exampleWorld) =
     Some \<lparr>profile_id = ''u1'', username = None, level = 1, xp = 0,
           stats = \<lparr>strength = Undefined, intelligence = Undefined, motivation = Undefined\<rparr>\<rparr>
   \<and> profile (addXP exampleRemote 102 0 (fetchProfile exampleRemote ''u1'' exampleWorld)) =
       Some \<lparr>profile_id = ''u1'', username = None, level = 2, xp = 102,
             stats = \<lparr>strength = NaN, intelligence = Undefined, motivation = Undefined\<rparr>\<rparr>
   \<and> profile (addXP exampleRemote 102 (1/2) (fetchProfile exampleRemote ''u1'' exampleWorld)) =
       Some \<lparr>profile_id = ''u1'', username = None, level = 2, xp = 102,
             stats = \<lparr>strength = Undefined, intelligence = NaN, motivation = Undefined\<rparr>\<rparr>
   \<and> profile (addXP exampleRemote 102 (9/10) (fetchProfile exampleRemote ''u1'' exampleWorld)) =
       Some \<lparr>profile_id = ''u1'', username = None, level = 2, xp = 102,
             stats = \<lparr>strength = Undefined, intelligence = Undefined, motivation = NaN\<rparr>\<rparr>"
proof -
  note f = fetchProfile_example
  have r: "(0::real) \<le> 0" "(0::real) < 1" "(0::real) \<le> 1/2" "(1/2::real) < 1"
    "(0::real) \<le> 9/10" "(9/10::real) < 1"
    by simp_all
  show ?thesis
    by (simp add: f addXP_profile [OF f exampleRemote_accepts] r calculateLevel_102 js_plus_def)
qed

text \<open>
  Claim C8 (as stated). After every xp mutation via \<open>addXP\<close> the profile satisfies
  \<open>level = calculateLevel(xp)\<close>. It fails: \<open>addXP\<close> writes the level only when the
  recomputed level is greater than the stored one. From the consistent profile (level 3,
  xp 400) the amount -300 leaves level 3 at xp 100, whose level is 2; and a profile whose
  stored level is ahead of its xp (level 5, xp 0) keeps level 5 after gaining 10 xp.
\<close>

theorem addXP_level_invariant_counterexample:
  "calculateLevel 400 = Some 3
   \<and> (\<exists>p'. profile (addXP exampleRemote (- 300) 0
                      (exampleWorld\<lparr>profile := Some (exampleProfile\<lparr>level := 3, xp := 400\<rparr>)\<rparr>))
             = Some p'
          \<and> level p' = 3 \<and> calculateLevel (xp p') = Some 2)
   \<and> (\<exists>p'. profile (addXP exampleRemote 10 0
                      (exampleWorld\<lparr>profile := Some (exampleProfile\<lparr>level := 5\<rparr>)\<rparr>))
             = Some p'
          \<and> level p' = 5 \<and> calculateLevel (xp p') = Some 1)"
  by (simp add: addXP_def updateProfile_def send_def applyUpdates_def Let_def
        exampleWorld_def exampleProfile_def exampleRemote_def
        calculateLevel_100 calculateLevel_400 calculateLevel_10)

text \<open>
  Claim C8 (amended). When no profile is loaded \<open>addXP\<close> does nothing. Otherwise every
  call of \<open>addXP\<close> sends exactly one profile update, which carries the new xp and either
  nothing else or the new level together with the new stats (never the level alone or the
  stats alone); and if the profile satisfies \<open>level = calculateLevel(xp)\<close> and the amount
  is non-negative, then after \<open>addXP\<close> the profile satisfies \<open>level = calculateLevel(xp)\<close>
  again, whether the remote store accepts the update or not.
\<close>

theorem addXP_level_invariant:
  "(profile w = None \<longrightarrow> addXP sb amount rnd w = w)
   \<and> (\<forall>p. profile w = Some p \<longrightarrow>
         (\<exists>u. requests (addXP sb amount rnd w) = requests w @ [UpdateProfile (profile_id p) u]
            \<and> set_xp u = Some (xp p + amount)
            \<and> (set_level u = None \<and> set_stats u = None
               \<or> set_level u = calculateLevel (xp p + amount) \<and> set_level u \<noteq> None
                  \<and> set_stats u \<noteq> None))
         \<and> (calculateLevel (xp p) = Some (level p) \<and> 0 \<le> amount \<longrightarrow>
              (\<exists>p'. profile (addXP sb amount rnd w) = Some p'
                 \<and> calculateLevel (xp p') = Some (level p'))))"
proof (intro conjI allI impI)
  assume "profile w = None"
  then show "addXP sb amount rnd w = w"
    by (simp add: addXP_def)
next
  fix p
  assume prof: "profile w = Some p"
  show "\<exists>u. requests (addXP sb amount rnd w) = requests w @ [UpdateProfile (profile_id p) u]
            \<and> set_xp u = Some (xp p + amount)
            \<and> (set_level u = None \<and> set_stats u = None
               \<or> set_level u = calculateLevel (xp p + amount) \<and> set_level u \<noteq> None
                  \<and> set_stats u \<noteq> None)"
    using prof
    by (simp add: addXP_Some updateProfile_Some split: option.splits)
next
  fix p
  assume prof: "profile w = Some p"
    and pre: "calculateLevel (xp p) = Some (level p) \<and> 0 \<le> amount"
  then have inv: "calculateLevel (xp p) = Some (level p)" and amt: "0 \<le> amount"
    by simp_all
  have x0: "0 \<le> xp p"
    using inv by (rule calculateLevel_SomeD)
  from calculateLevel_mono [of "xp p" "xp p + amount"] x0 amt inv
  obtain l where l: "calculateLevel (xp p + amount) = Some l" and le: "level p \<le> l"
    by auto
  show "\<exists>p'. profile (addXP sb amount rnd w) = Some p'
            \<and> calculateLevel (xp p') = Some (level p')"
  proof (cases "level p < l")
    case True
    with prof l show ?thesis
      by (simp add: addXP_Some updateProfile_Some applyUpdates_def inv split: option.splits)
  next
    case False
    with le have "l = level p" by simp
    with prof l show ?thesis
      by (simp add: addXP_Some updateProfile_Some applyUpdates_def inv split: option.splits)
  qed
qed

theorem addXP_level_invariant_witness:
  "addXP exampleRemote 50 (1/2) (exampleWorld\<lparr>profile := None\<rparr>)
     = exampleWorld\<lparr>profile := None\<rparr>
   \<and> (\<exists>u. requests (addXP exampleRemote (- 300) (1/2) exampleWorld) =
            requests exampleWorld @ [UpdateProfile (profile_id exampleProfile) u]
          \<and> set_xp u = Some (xp exampleProfile + (- 300))
          \<and> (set_level u = None \<and> set_stats u = None
             \<or> set_level u = calculateLevel (xp exampleProfile + (- 300)) \<and> set_level u \<noteq> None
                \<and> set_stats u \<noteq> None))
   \<and> calculateLevel (xp exampleProfile) = Some (level exampleProfile)
   \<and> (\<exists>u. requests (addXP exampleRemote 102 (1/2) exampleWorld) =
            requests exampleWorld @ [UpdateProfile (profile_id exampleProfile) u]
          \<and> set_xp u = Some (xp exampleProfile + 102)
          \<and> (set_level u = None \<and> set_stats u = None
             \<or> set_level u = calculateLevel (xp exampleProfile + 102) \<and> set_level u \<noteq> None
                \<and> set_stats u \<noteq> None))
   \<and> (\<exists>p'. profile (addXP exampleRemote 102 (1/2) exampleWorld) = Some p'
          \<and> calculateLevel (xp p') = Some (level p'))"
proof -
  have none: "profile (exampleWorld\<lparr>profile := None\<rparr>) = None"
    by simp
  have inv: "calculateLevel (xp exampleProfile) = Some (level exampleProfile)"
    by (simp add: exampleProfile_def calculateLevel_0)
  have pre: "calculateLevel (xp exampleProfile) = Some (level exampleProfile) \<and> (0::int) \<le> 102"
    using inv by simp
  note t = addXP_level_invariant
  have a: "addXP exampleRemote 50 (1/2) (exampleWorld\<lparr>profile := None\<rparr>)
             = exampleWorld\<lparr>profile := None\<rparr>"
    by (rule mp [OF conjunct1 [OF t] none])
  note some = mp [OF spec [OF conjunct2 [OF t]] exampleWorld_profile]
  show ?thesis
    by (intro conjI a inv conjunct1 [OF some] mp [OF conjunct2 [OF some] pre])
qed

section \<open>Objectives: incrementProgress and updateObjective\<close>

lemma updateObjective_objectives:
  "objectives (updateObjective sb oid u w) =
     (case remote_update_objective sb oid u of
        Inl msg \<Rightarrow> objectives w
      | Inr data \<Rightarrow> map (\<lambda>obj. if objective_id obj = oid then data else obj) (objectives w))"
  by (simp add: updateObjective_def send_def Let_def split: sum.splits)

lemma updateObjective_requests:
  "requests (updateObjective sb oid u w) = requests w @ [UpdateObjective oid u]"
  by (simp add: updateObjective_def send_def Let_def split: sum.splits)

lemma find_SomeD: "find P xs = Some x \<Longrightarrow> x \<in> set xs"
  by (auto simp: find_Some_iff)

lemma incrementProgress_objectives:
  assumes found: "find (\<lambda>ob. objective_id ob = oid) (objectives w) = Some obj"
    and faithful: "\<forall>obj u data.
         find (\<lambda>ob. objective_id ob = oid) (objectives w) = Some obj
         \<and> remote_update_objective sb oid u = Inr data \<longrightarrow> data = patchObjective obj u"
    and ob: "ob \<in> set (objectives (incrementProgress sb oid amount w))"
  shows "ob \<in> set (objectives w)
       \<or> ob = obj\<lparr>current_value :=
                    min (current_value obj + (case amount of None \<Rightarrow> 1 | Some n \<Rightarrow> n))
                      (target_value obj)\<rparr>"
proof -
  let ?v = "min (current_value obj + (case amount of None \<Rightarrow> 1 | Some n \<Rightarrow> n))
              (target_value obj)"
  let ?u = "\<lparr>uo_title = None, uo_target_value = None, uo_current_value = Some ?v,
             uo_status = None\<rparr>"
  have eq: "incrementProgress sb oid amount w = updateObjective sb oid ?u w"
    using found by (simp add: incrementProgress_def Let_def)
  show ?thesis
  proof (cases "remote_update_objective sb oid ?u")
    case (Inl msg)
    with ob show ?thesis
      by (simp add: eq updateObjective_objectives)
  next
    case (Inr data)
    with found faithful have "data = patchObjective obj ?u"
      by blast
    then have data: "data = obj\<lparr>current_value := ?v\<rparr>"
      by (simp add: patchObjective_def)
    from ob Inr have "ob \<in> set (objectives w) \<or> ob = data"
      by (auto simp: eq updateObjective_objectives)
    with data show ?thesis
      by simp
  qed
qed

text \<open>
  Claim C10 (as stated). Every objective mutation, \<open>incrementProgress\<close> with any amount
  and \<open>updateObjective\<close> included, preserves \<open>0 \<le> current_value \<le> target_value\<close>. It
  fails: from an objective at 0 of 10, \<open>incrementProgress\<close> with amount -5 writes -5,
  and \<open>updateObjective\<close> with \<open>current_value: 99\<close> writes 99.
\<close>

theorem incrementProgress_counterexample:
  "list_all (\<lambda>ob. 0 \<le> current_value ob \<and> current_value ob \<le> target_value ob)
     (objectives exampleWorld)
   \<and> map current_value (objectives (incrementProgress exampleRemote ''o1'' (Some (- 5)) exampleWorld))
       = [- 5]
   \<and> map (\<lambda>ob. (current_value ob, target_value ob))
       (objectives (updateObjective exampleRemote ''o1''
          \<lparr>uo_title = None, uo_target_value = None, uo_current_value = Some 99,
           uo_status = None\<rparr> exampleWorld))
       = [(99, 10)]"
  by (simp add: exampleWorld_def exampleRemote_def exampleObjective_def incrementProgress_def
        updateObjective_objectives patchObjective_def Let_def)

text \<open>
  Claim C10 (amended). Let every local objective satisfy
  \<open>0 \<le> current_value \<le> target_value\<close> and let the remote store return the written row.
  Then after \<open>incrementProgress\<close> with any amount every objective has
  \<open>current_value \<le> target_value\<close>: the value submitted is
  \<open>min(current_value + amount, target_value)\<close>. With a non-negative amount the whole
  invariant \<open>0 \<le> current_value \<le> target_value\<close> is preserved. \<open>updateObjective\<close> does
  not clamp: it preserves the invariant when the row it stores satisfies it.
\<close>

theorem incrementProgress_clamp:
  assumes inv: "\<forall>ob \<in> set (objectives w). 0 \<le> current_value ob \<and> current_value ob \<le> target_value ob"
    and faithful: "\<forall>obj u data.
         find (\<lambda>ob. objective_id ob = oid) (objectives w) = Some obj
         \<and> remote_update_objective sb oid u = Inr data \<longrightarrow> data = patchObjective obj u"
  shows "(\<forall>ob \<in> set (objectives (incrementProgress sb oid amount w)).
            current_value ob \<le> target_value ob)
       \<and> (0 \<le> (case amount of None \<Rightarrow> 1 | Some n \<Rightarrow> n) \<longrightarrow>
            (\<forall>ob \<in> set (objectives (incrementProgress sb oid amount w)).
               0 \<le> current_value ob \<and> current_value ob \<le> target_value ob))
       \<and> (\<forall>obj. find (\<lambda>ob. objective_id ob = oid) (objectives w) = Some obj \<longrightarrow>
            requests (incrementProgress sb oid amount w) =
              requests w @
                [UpdateObjective oid
                   \<lparr>uo_title = None, uo_target_value = None,
                    uo_current_value =
                      Some (min (current_value obj + (case amount of None \<Rightarrow> 1 | Some n \<Rightarrow> n))
                              (target_value obj)),
                    uo_status = None\<rparr>])
       \<and> (\<forall>u. (\<forall>data. remote_update_objective sb oid u = Inr data \<longrightarrow>
                   0 \<le> current_value data \<and> current_value data \<le> target_value data) \<longrightarrow>
              (\<forall>ob \<in> set (objectives (updateObjective sb oid u w)).
                 0 \<le> current_value ob \<and> current_value ob \<le> target_value ob))"
proof (intro conjI)
  let ?a = "case amount of None \<Rightarrow> 1 | Some n \<Rightarrow> n"
  show "\<forall>ob \<in> set (objectives (incrementProgress sb oid amount w)).
            current_value ob \<le> target_value ob"
  proof (cases "find (\<lambda>ob. objective_id ob = oid) (objectives w)")
    case None
    with inv show ?thesis by (simp add: incrementProgress_def)
  next
    case (Some obj)
    show ?thesis
    proof
      fix ob
      assume "ob \<in> set (objectives (incrementProgress sb oid amount w))"
      with Some faithful
      have "ob \<in> set (objectives w)
            \<or> ob = obj\<lparr>current_value := min (current_value obj + ?a) (target_value obj)\<rparr>"
        by (rule incrementProgress_objectives)
      with inv show "current_value ob \<le> target_value ob"
        by auto
    qed
  qed
  show "0 \<le> ?a \<longrightarrow>
            (\<forall>ob \<in> set (objectives (incrementProgress sb oid amount w)).
               0 \<le> current_value ob \<and> current_value ob \<le> target_value ob)"
  proof (cases "find (\<lambda>ob. objective_id ob = oid) (objectives w)")
    case None
    with inv show ?thesis by (simp add: incrementProgress_def)
  next
    case (Some obj)
    then have "obj \<in> set (objectives w)" by (rule find_SomeD)
    with inv have obj: "0 \<le> current_value obj" "current_value obj \<le> target_value obj"
      by auto
    show ?thesis
    proof (intro impI ballI)
      fix ob
      assume a: "0 \<le> ?a" and "ob \<in> set (objectives (incrementProgress sb oid amount w))"
      with Some faithful
      have "ob \<in> set (objectives w)
            \<or> ob = obj\<lparr>current_value := min (current_value obj + ?a) (target_value obj)\<rparr>"
        by (intro incrementProgress_objectives)
      with inv obj a show "0 \<le> current_value ob \<and> current_value ob \<le> target_value ob"
        by auto
    qed
  qed
  show "\<forall>obj. find (\<lambda>ob. objective_id ob = oid) (objectives w) = Some obj \<longrightarrow>
            requests (incrementProgress sb oid amount w) =
              requests w @
                [UpdateObjective oid
                   \<lparr>uo_title = None, uo_target_value = None,
                    uo_current_value = Some (min (current_value obj + ?a) (target_value obj)),
                    uo_status = None\<rparr>]"
    by (simp add: incrementProgress_def Let_def updateObjective_requests)
  show "\<forall>u. (\<forall>data. remote_update_objective sb oid u = Inr data \<longrightarrow>
                   0 \<le> current_value data \<and> current_value data \<le> target_value data) \<longrightarrow>
              (\<forall>ob \<in> set (objectives (updateObjective sb oid u w)).
                 0 \<le> current_value ob \<and> current_value ob \<le> target_value ob)"
    using inv by (auto simp: updateObjective_objectives split: sum.splits)
qed

theorem incrementProgress_clamp_witness:
  "list_all (\<lambda>ob. 0 \<le> current_value ob \<and> current_value ob \<le> target_value ob)
     (objectives exampleWorld)
   \<and> list_all (\<lambda>ob. 0 \<le> current_value ob \<and> current_value ob \<le> target_value ob)
       (objectives (incrementProgress exampleRemote ''o1'' None exampleWorld))
   \<and> list_all (\<lambda>ob. current_value ob \<le> target_value ob)
       (objectives (incrementProgress exampleRemote ''o1'' (Some (- 5)) exampleWorld))"
proof -
  have inv: "\<forall>ob \<in> set (objectives exampleWorld).
               0 \<le> current_value ob \<and> current_value ob \<le> target_value ob"
    by (simp add: exampleWorld_def exampleObjective_def)
  have faithful: "\<forall>obj u data.
         find (\<lambda>ob. objective_id ob = ''o1'') (objectives exampleWorld) = Some obj
         \<and> remote_update_objective exampleRemote ''o1'' u = Inr data \<longrightarrow>
         data = patchObjective obj u"
    by (simp add: exampleWorld_def exampleRemote_def exampleObjective_def)
  have a: "(0::int) \<le> (case None of None \<Rightarrow> 1 | Some n \<Rightarrow> n)" by simp
  note t = incrementProgress_clamp [OF inv faithful]
  from t [of None] a
  have "\<forall>ob \<in> set (objectives (incrementProgress exampleRemote ''o1'' None exampleWorld)).
          0 \<le> current_value ob \<and> current_value ob \<le> target_value ob"
    by blast
  moreover from t [of "Some (- 5)"]
  have "\<forall>ob \<in> set (objectives (incrementProgress exampleRemote ''o1'' (Some (- 5)) exampleWorld)).
          current_value ob \<le> target_value ob"
    by blast
  ultimately show ?thesis
    using inv by (simp only: list_all_iff)
qed

section \<open>Completing a mission\<close>

lemma fetchMissionHistory_frame:
  "profile (fetchMissionHistory sb uid w) = profile w"
  "missions (fetchMissionHistory sb uid w) = missions w"
  "requests (fetchMissionHistory sb uid w) = requests w @ [SelectHistory uid]"
  by (simp_all add: fetchMissionHistory_def send_def Let_def split: sum.splits)

lemma trackMissionHistory_frame:
  "profile (trackMissionHistory sb mid uid a os ns g n w) = profile w"
  "missions (trackMissionHistory sb mid uid a os ns g n w) = missions w"
  "creationRequests (requests (trackMissionHistory sb mid uid a os ns g n w)) =
     creationRequests (requests w)"
  by (simp_all add: trackMissionHistory_def send_def Let_def fetchMissionHistory_frame
        creationRequests_def split: option.splits)

lemma updateMission_profile: "profile (updateMission sb mid u w) = profile w"
  by (simp add: updateMission_def send_def Let_def trackMissionHistory_frame
        split: option.splits sum.splits)

lemma addXP_missions: "missions (addXP sb amount rnd w) = missions w"
  by (simp add: addXP_def updateProfile_def send_def Let_def split: option.splits)

lemma addXP_xp:
  assumes "profile w = Some p" and "\<forall>u. remote_update_profile sb (profile_id p) u = None"
  shows "\<exists>p'. profile (addXP sb amount rnd w) = Some p' \<and> xp p' = xp p + amount
              \<and> profile_id p' = profile_id p"
  using assms
  by (auto simp: addXP_Some updateProfile_Some applyUpdates_def split: option.splits)

lemma markMissionComplete_xp:
  assumes found: "find (\<lambda>m. mission_id m = mid) (missions w) = Some m"
    and prof: "profile w = Some p"
    and ok: "\<forall>u. remote_update_profile sb (profile_id p) u = None"
  shows "\<exists>p'. profile (markMissionComplete sb mid rnd w) = Some p'
           \<and> xp p' = xp p + xp_reward m \<and> profile_id p' = profile_id p"
proof -
  have "profile (updateMission sb mid (statusOnly completed) w) = Some p"
    using prof by (simp add: updateMission_profile)
  from addXP_xp [OF this ok]
  show ?thesis
    using found by (simp add: markMissionComplete_def Let_def trackMissionHistory_frame)
qed

lemma handleCompleteMission_xp:
  assumes found: "find (\<lambda>m. mission_id m = mid) (missions w) = Some m"
    and prof: "profile w = Some p"
    and ok: "\<forall>u. remote_update_profile sb (profile_id p) u = None"
  shows "\<exists>p'. profile (handleCompleteMission sb mid rnd1 rnd2 w) = Some p'
           \<and> xp p' = xp p + xp_reward m + xp_reward m"
proof -
  from markMissionComplete_xp [OF found prof ok]
  obtain p1 where p1: "profile (markMissionComplete sb mid rnd1 w) = Some p1"
    and x1: "xp p1 = xp p + xp_reward m" and id1: "profile_id p1 = profile_id p"
    by blast
  from ok id1 have ok1: "\<forall>u. remote_update_profile sb (profile_id p1) u = None"
    by simp
  from addXP_xp [OF p1 ok1, of "xp_reward m" rnd2] x1 found
  show ?thesis
    by (auto simp: handleCompleteMission_def Let_def)
qed

lemma exampleWorld_find:
  "find (\<lambda>m. mission_id m = ''m1'') (missions exampleWorld) = Some exampleMission"
  by (simp add: exampleWorld_def exampleMission_def)

lemma markMissionComplete_example_missions:
  "missions (markMissionComplete exampleRemote ''m1'' rnd exampleWorld) =
     [exampleMission\<lparr>status := completed\<rparr>]"
  by (simp add: markMissionComplete_def Let_def trackMissionHistory_frame addXP_missions
        exampleWorld_find)
     (simp add: updateMission_def Let_def send_def trackMissionHistory_frame statusOnly_def
        exampleWorld_def exampleRemote_def exampleMission_def)

lemma historyRequests_append:
  "historyRequests (rs @ rs') = historyRequests rs @ historyRequests rs'"
  by (simp add: historyRequests_def)

lemma fetchMissionHistory_history:
  "historyRequests (requests (fetchMissionHistory sb uid w)) = historyRequests (requests w)"
  by (simp add: fetchMissionHistory_frame historyRequests_def)

lemma trackMissionHistory_history:
  "historyRequests (requests (trackMissionHistory sb mid uid a os ns g n w)) =
     historyRequests (requests w) @
       [\<lparr>h_mission_id = mid, h_user_id = uid, h_action = a, h_old_status = os,
         h_new_status = ns, h_xp_gained = g, h_notes = n\<rparr>]"
  by (simp add: trackMissionHistory_def send_def Let_def fetchMissionHistory_history
        split: option.splits)
     (simp add: historyRequests_def)

lemma addXP_history:
  "historyRequests (requests (addXP sb amount rnd w)) = historyRequests (requests w)"
  by (simp add: addXP_def updateProfile_def send_def Let_def historyRequests_def
        split: option.splits)

lemma updateMission_example_history:
  "historyRequests (requests (updateMission exampleRemote ''m1'' (statusOnly completed) exampleWorld))
     = [\<lparr>h_mission_id = ''m1'', h_user_id = ''u1'', h_action = act_updated,
         h_old_status = Some pending, h_new_status = Some completed, h_xp_gained = 0,
         h_notes = None\<rparr>]"
proof -
  have r: "remote_update_mission exampleRemote ''m1'' (statusOnly completed)
            = Inr (exampleMission\<lparr>status := completed\<rparr>)"
    by (simp add: exampleRemote_def statusOnly_def)
  have u: "upd_status (statusOnly completed) = Some completed"
    by (simp add: statusOnly_def)
  have m: "status exampleMission = pending" "user_id exampleMission = ''u1''"
    by (simp_all add: exampleMission_def)
  have e: "requests exampleWorld = []"
    by (simp add: exampleWorld_def)
  show ?thesis
    by (simp add: updateMission_def Let_def exampleWorld_find r u m trackMissionHistory_history)
       (simp add: send_def historyRequests_def e)
qed

lemma handleCompleteMission_example_history:
  "map (\<lambda>h. (h_action h, h_xp_gained h))
     (historyRequests (requests (handleCompleteMission exampleRemote ''m1'' 0 0 exampleWorld)))
   = [(act_updated, 0), (act_completed, 102)]"
proof -
  have m: "xp_reward exampleMission = 102" "status exampleMission = pending"
    "user_id exampleMission = ''u1''"
    by (simp_all add: exampleMission_def)
  show ?thesis
    by (simp add: handleCompleteMission_def markMissionComplete_def exampleWorld_find Let_def
          addXP_history trackMissionHistory_history updateMission_example_history m)
qed

text \<open>
  Claim C1. Completing a mission more than once grants its \<open>xp_reward\<close> exactly once.
  The code does otherwise. \<open>markMissionComplete\<close> never reads the mission's status and
  calls \<open>addXP(mission.xp_reward)\<close> on every call (lemma \<open>markMissionComplete_xp\<close>), and
  the display's \<open>handleCompleteMission\<close> calls \<open>addXP\<close> once more after it (lemma
  \<open>handleCompleteMission_xp\<close>). Evaluated on a profile with 0 xp and a pending mission worth
  102 xp: one click on Complete leaves 204 xp
  while the history row written for it records 102 xp gained; one \<open>markMissionComplete\<close> leaves 102 xp and
  the mission completed, and a second one on the completed mission leaves 204 xp.
\<close>

theorem completion_grants_xp_twice:
  "map_option xp (profile exampleWorld) = Some 0
   \<and> map xp_reward (missions exampleWorld) = [102]
   \<and> map_option xp (profile (handleCompleteMission exampleRemote ''m1'' 0 0 exampleWorld))
       = Some 204
   \<and> map (\<lambda>h. (h_action h, h_xp_gained h))
       (historyRequests (requests (handleCompleteMission exampleRemote ''m1'' 0 0 exampleWorld)))
       = [(act_updated, 0), (act_completed, 102)]
   \<and> map_option xp (profile (markMissionComplete exampleRemote ''m1'' 0 exampleWorld))
       = Some 102
   \<and> map status (missions (markMissionComplete exampleRemote ''m1'' 0 exampleWorld))
       = [completed]
   \<and> map_option xp
       (profile (markMissionComplete exampleRemote ''m1'' 0
                  (markMissionComplete exampleRemote ''m1'' 0 exampleWorld)))
       = Some 204"
proof -
  let ?w1 = "markMissionComplete exampleRemote ''m1'' 0 exampleWorld"
  have x0: "xp exampleProfile = 0" and r: "xp_reward exampleMission = 102"
    by (simp_all add: exampleProfile_def exampleMission_def)
  have a: "map_option xp (profile (handleCompleteMission exampleRemote ''m1'' 0 0 exampleWorld))
       = Some 204"
    using handleCompleteMission_xp [OF exampleWorld_find exampleWorld_profile exampleRemote_accepts,
        of 0 0]
    by (auto simp: x0 r)
  from markMissionComplete_xp [OF exampleWorld_find exampleWorld_profile exampleRemote_accepts,
        of 0]
  obtain p1 where p1: "profile ?w1 = Some p1" and x1: "xp p1 = 102"
    by (auto simp: x0 r)
  have ms: "missions ?w1 = [exampleMission\<lparr>status := completed\<rparr>]"
    by (rule markMissionComplete_example_missions)
  then have f1: "find (\<lambda>m. mission_id m = ''m1'') (missions ?w1)
                  = Some (exampleMission\<lparr>status := completed\<rparr>)"
    by (simp add: exampleMission_def)
  have ok1: "\<forall>u. remote_update_profile exampleRemote (profile_id p1) u = None"
    by (simp add: exampleRemote_def)
  from markMissionComplete_xp [OF f1 p1 ok1, of 0]
  have b: "map_option xp (profile (markMissionComplete exampleRemote ''m1'' 0 ?w1)) = Some 204"
    by (auto simp: x1 r)
  have s0: "map_option xp (profile exampleWorld) = Some 0"
    by (simp add: exampleWorld_def x0)
  have s1: "map xp_reward (missions exampleWorld) = [102]"
    by (simp add: exampleWorld_def r)
  have c: "map_option xp (profile ?w1) = Some 102"
    using p1 x1 by simp
  have d: "map status (missions ?w1) = [completed]"
    using ms by simp
  show ?thesis
    by (intro conjI s0 s1 a handleCompleteMission_example_history c d b)
qed

section \<open>Daily mission generation\<close>

lemma createMission_creationRequests:
  "creationRequests (requests (createMission sb uid i w)) =
     creationRequests (requests w) @ [(uid, i)]"
  by (simp add: createMission_def Let_def trackMissionHistory_frame split: sum.splits)
     (simp add: send_def creationRequests_def)

lemma fold_createMission_creationRequests:
  "creationRequests (requests (fold (createMission sb uid) inputs w)) =
     creationRequests (requests w) @ map (Pair uid) inputs"
  by (induction inputs arbitrary: w) (simp_all add: createMission_creationRequests)

lemma length_getMissionTemplates: "length (getMissionTemplates c) = 5"
  by (cases c) simp_all

lemma template_index:
  assumes "0 \<le> r" and "r < 1"
  shows "0 \<le> \<lfloor>r * real (length (getMissionTemplates c))\<rfloor>
       \<and> \<lfloor>r * real (length (getMissionTemplates c))\<rfloor> < int (length (getMissionTemplates c))"
proof -
  have "0 \<le> r * 5" and "r * 5 < 5" using assms by simp_all
  then have "0 \<le> \<lfloor>r * 5\<rfloor>" and "\<lfloor>r * 5\<rfloor> < 5"
    by (simp_all add: floor_less_iff)
  then show ?thesis
    by (simp add: length_getMissionTemplates)
qed

lemma newMissions_in_range:
  assumes "\<forall>c \<in> set cs. 0 \<le> rnd c \<and> rnd c < 1"
  shows "newMissions prof rnd dateNow cs = Inr (map (dailyInput prof rnd dateNow) cs)"
  using assms
proof (induction cs)
  case Nil
  show ?case by simp
next
  case (Cons c cs)
  then have r: "0 \<le> rnd c" "rnd c < 1" by simp_all
  from Cons have IH: "newMissions prof rnd dateNow cs = Inr (map (dailyInput prof rnd dateNow) cs)"
    by simp
  from template_index [OF r, of c] show ?case
    by (simp add: IH Let_def dailyInput_def length_getMissionTemplates)
qed

lemma dailyInput_template:
  assumes "0 \<le> rnd c" and "rnd c < 1"
  shows "\<exists>t \<in> set (getMissionTemplates c).
           in_title (dailyInput prof rnd dateNow c) = tpl_title t
           \<and> in_description (dailyInput prof rnd dateNow c) = Some (tpl_description t)"
proof -
  have "0 \<le> \<lfloor>rnd c * 5\<rfloor>" and "\<lfloor>rnd c * 5\<rfloor> < 5"
    using assms by (simp_all add: floor_less_iff)
  then have "nat \<lfloor>rnd c * 5\<rfloor> < 5"
    by linarith
  then have "nat \<lfloor>rnd c * 5\<rfloor> < length (getMissionTemplates c)"
    by (simp only: length_getMissionTemplates)
  then have "getMissionTemplates c ! nat \<lfloor>rnd c * 5\<rfloor> \<in> set (getMissionTemplates c)"
    by (rule nth_mem)
  then show ?thesis
    by (auto simp: dailyInput_def)
qed

lemma toISODate_day:
  "toISODate ms = d \<longleftrightarrow> d * 86400000 \<le> ms \<and> ms < (d + 1) * 86400000"
  unfolding toISODate_def by (simp add: algebra_simps) linarith

lemma toISODate_tomorrow: "toISODate (ms + 24 * 60 * 60 * 1000) = toISODate ms + 1"
  by (simp add: toISODate_def)

text \<open>
  Claim C7 (as stated). When the availability gate is false, \<open>generateDailyMissions\<close>
  sends no creation request, raises no error and leaves the state unchanged. The last
  part fails: the function starts with \<open>set({ loading: true, error: null })\<close>, so an error
  message stored by an earlier operation is gone afterwards.
\<close>

theorem generateDailyMissions_state_counterexample:
  "\<not> checkScheduleAvailability \<lparr>getTime = 1000, getHours = 10\<rparr> []
   \<and> m_error
       (generateDailyMissions exampleRemote ''u1'' exampleProfile [] []
          \<lparr>getTime = 1000, getHours = 10\<rparr> (\<lambda>c. 0) (\<lambda>c. 0)
          (exampleWorld\<lparr>m_error := Some ''Network error''\<rparr>))
       = None
   \<and> generateDailyMissions exampleRemote ''u1'' exampleProfile [] []
        \<lparr>getTime = 1000, getHours = 10\<rparr> (\<lambda>c. 0) (\<lambda>c. 0)
        (exampleWorld\<lparr>m_error := Some ''Network error''\<rparr>)
       \<noteq> exampleWorld\<lparr>m_error := Some ''Network error''\<rparr>"
proof -
  have closed: "\<not> checkScheduleAvailability \<lparr>getTime = 1000, getHours = 10\<rparr> []"
    by (simp add: checkScheduleAvailability_def)
  have e: "m_error
       (generateDailyMissions exampleRemote ''u1'' exampleProfile [] []
          \<lparr>getTime = 1000, getHours = 10\<rparr> (\<lambda>c. 0) (\<lambda>c. 0)
          (exampleWorld\<lparr>m_error := Some ''Network error''\<rparr>))
       = None"
    using closed by (simp add: generateDailyMissions_def)
  have "m_error (exampleWorld\<lparr>m_error := Some ''Network error''\<rparr>) \<noteq> None"
    by simp
  with e have "generateDailyMissions exampleRemote ''u1'' exampleProfile [] []
        \<lparr>getTime = 1000, getHours = 10\<rparr> (\<lambda>c. 0) (\<lambda>c. 0)
        (exampleWorld\<lparr>m_error := Some ''Network error''\<rparr>)
       \<noteq> exampleWorld\<lparr>m_error := Some ''Network error''\<rparr>"
    by metis
  with closed e show ?thesis
    by (intro conjI)
qed

text \<open>
  Claim C7 (amended). \<open>generateDailyMissions\<close>, with \<open>Math.random()\<close> in \<open>[0, 1)\<close>. When
  the availability gate is false it sends no request and raises no error: the resulting
  state is the one before with \<open>loading\<close> set to false and \<open>error\<close> set to null, and
  nothing else is changed. When the gate is true it sends exactly one creation request
  for each of sport, studies and routine, in this order, each with the title and
  description of a template of its category's catalog, the difficulty
  \<open>selectDifficulty(profile.level, profile.stats)\<close>, the reward
  \<open>getXPReward(difficulty, profile.level)\<close> and, as deadline, the UTC date of \<open>Date.now()\<close>
  plus 24 hours: the day number \<open>(Date.now() + 86400000) div 86400000\<close>, the time of day
  being dropped.
\<close>

theorem generateDailyMissions_requests:
  assumes rnd: "\<forall>c. 0 \<le> rnd c \<and> rnd c < 1"
  shows "(\<not> checkScheduleAvailability now schedules \<longrightarrow>
            generateDailyMissions sb userId prof objs schedules now rnd dateNow w =
              w\<lparr>m_loading := False, m_error := None\<rparr>)
       \<and> (checkScheduleAvailability now schedules \<longrightarrow>
            (\<exists>inputs.
               creationRequests
                 (requests (generateDailyMissions sb userId prof objs schedules now rnd dateNow w))
                 = creationRequests (requests w) @ map (Pair userId) inputs
               \<and> map in_category inputs = [sport, studies, routine]
               \<and> (\<forall>m \<in> set inputs.
                     (\<exists>t \<in> set (getMissionTemplates (in_category m)).
                        in_title m = tpl_title t \<and> in_description m = Some (tpl_description t))
                     \<and> in_difficulty m = selectDifficulty (level prof) (stats prof)
                     \<and> in_xp_reward m = getXPReward (in_difficulty m) (level prof)
                     \<and> in_deadline m =
                         Some ((dateNow (in_category m) + 86400000) div 86400000))))"
proof (intro conjI impI)
  assume "\<not> checkScheduleAvailability now schedules"
  then show "generateDailyMissions sb userId prof objs schedules now rnd dateNow w =
              w\<lparr>m_loading := False, m_error := None\<rparr>"
    by (simp add: generateDailyMissions_def)
next
  assume gate: "checkScheduleAvailability now schedules"
  let ?inputs = "map (dailyInput prof rnd dateNow) [sport, studies, routine]"
  have nm: "newMissions prof rnd dateNow [sport, studies, routine] = Inr ?inputs"
    using rnd by (intro newMissions_in_range) blast
  have req: "creationRequests
                 (requests (generateDailyMissions sb userId prof objs schedules now rnd dateNow w))
                 = creationRequests (requests w) @ map (Pair userId) ?inputs"
    using gate
    by (simp add: generateDailyMissions_def nm fold_createMission_creationRequests
          del: newMissions.simps list.map)
  have cats: "map in_category ?inputs = [sport, studies, routine]"
    by (simp add: dailyInput_def)
  have each: "\<forall>m \<in> set ?inputs.
                     (\<exists>t \<in> set (getMissionTemplates (in_category m)).
                        in_title m = tpl_title t \<and> in_description m = Some (tpl_description t))
                     \<and> in_difficulty m = selectDifficulty (level prof) (stats prof)
                     \<and> in_xp_reward m = getXPReward (in_difficulty m) (level prof)
                     \<and> in_deadline m =
                         Some ((dateNow (in_category m) + 86400000) div 86400000)"
  proof
    fix m
    assume "m \<in> set ?inputs"
    then obtain c where m: "m = dailyInput prof rnd dateNow c"
      by auto
    have c: "in_category (dailyInput prof rnd dateNow c) = c"
      by (simp add: dailyInput_def)
    from rnd have "0 \<le> rnd c" "rnd c < 1" by simp_all
    with dailyInput_template [of rnd c prof dateNow]
    have "\<exists>t \<in> set (getMissionTemplates (in_category m)).
            in_title m = tpl_title t \<and> in_description m = Some (tpl_description t)"
      by (simp add: c m)
    moreover have "in_difficulty m = selectDifficulty (level prof) (stats prof)"
      "in_xp_reward m = getXPReward (in_difficulty m) (level prof)"
      "in_deadline m = Some ((dateNow (in_category m) + 86400000) div 86400000)"
      by (simp_all add: m dailyInput_def toISODate_def)
    ultimately show "(\<exists>t \<in> set (getMissionTemplates (in_category m)).
                        in_title m = tpl_title t \<and> in_description m = Some (tpl_description t))
                     \<and> in_difficulty m = selectDifficulty (level prof) (stats prof)
                     \<and> in_xp_reward m = getXPReward (in_difficulty m) (level prof)
                     \<and> in_deadline m =
                         Some ((dateNow (in_category m) + 86400000) div 86400000)"
      by blast
  qed
  show "\<exists>inputs.
               creationRequests
                 (requests (generateDailyMissions sb userId prof objs schedules now rnd dateNow w))
                 = creationRequests (requests w) @ map (Pair userId) inputs
               \<and> map in_category inputs = [sport, studies, routine]
               \<and> (\<forall>m \<in> set inputs.
                     (\<exists>t \<in> set (getMissionTemplates (in_category m)).
                        in_title m = tpl_title t \<and> in_description m = Some (tpl_description t))
                     \<and> in_difficulty m = selectDifficulty (level prof) (stats prof)
                     \<and> in_xp_reward m = getXPReward (in_difficulty m) (level prof)
                     \<and> in_deadline m =
                         Some ((dateNow (in_category m) + 86400000) div 86400000))"
    by (rule exI [where x = ?inputs]) (intro conjI req cats each)
qed

text \<open>
  The witness: a closed gate on a store holding an error, and an open gate at
  2023-11-14T22:13:20Z (1700000000000 ms), whose deadline is day 19676, 2023-11-15.
\<close>

theorem generateDailyMissions_requests_witness:
  "generateDailyMissions exampleRemote ''u1'' exampleProfile [] []
       \<lparr>getTime = 1000, getHours = 10\<rparr> (\<lambda>c. 0) (\<lambda>c. 0)
       (exampleWorld\<lparr>m_error := Some ''Network error''\<rparr>)
     = exampleWorld\<lparr>m_error := Some ''Network error''\<rparr>\<lparr>m_loading := False, m_error := None\<rparr>
   \<and> (\<exists>inputs.
         creationRequests
           (requests
             (generateDailyMissions exampleRemote ''u1'' exampleProfile []
                [\<lparr>schedule_id = ''s1'', frequency = daily, start_date = 0, end_date = None,
                  is_active = True\<rparr>]
                \<lparr>getTime = 1700000000000, getHours = 10\<rparr> (\<lambda>c. 0) (\<lambda>c. 1700000000000)
                exampleWorld))
           = creationRequests (requests exampleWorld) @ map (Pair ''u1'') inputs
         \<and> map in_category inputs = [sport, studies, routine]
         \<and> (\<forall>m \<in> set inputs.
               (\<exists>t \<in> set (getMissionTemplates (in_category m)).
                  in_title m = tpl_title t \<and> in_description m = Some (tpl_description t))
               \<and> in_difficulty m = easy
               \<and> in_xp_reward m = 10
               \<and> in_deadline m = Some 19676))"
proof -
  have rnd: "\<forall>c::category. (0::real) \<le> (\<lambda>c. 0) c \<and> (\<lambda>c. 0) c < (1::real)"
    by simp
  have closed: "\<not> checkScheduleAvailability \<lparr>getTime = 1000, getHours = 10\<rparr> []"
    by (simp add: checkScheduleAvailability_def)
  have opened: "checkScheduleAvailability \<lparr>getTime = 1700000000000, getHours = 10\<rparr>
                  [\<lparr>schedule_id = ''s1'', frequency = daily, start_date = 0, end_date = None,
                    is_active = True\<rparr>]"
    by (simp add: checkScheduleAvailability_def coversNow_def)
  note t = generateDailyMissions_requests [OF rnd]
  have a: "generateDailyMissions exampleRemote ''u1'' exampleProfile [] []
       \<lparr>getTime = 1000, getHours = 10\<rparr> (\<lambda>c. 0) (\<lambda>c. 0)
       (exampleWorld\<lparr>m_error := Some ''Network error''\<rparr>)
     = exampleWorld\<lparr>m_error := Some ''Network error''\<rparr>\<lparr>m_loading := False, m_error := None\<rparr>"
    by (rule mp [OF conjunct1 [OF t] closed])
  have d: "selectDifficulty (level exampleProfile) (stats exampleProfile) = easy"
    by (simp add: exampleProfile_def selectDifficulty_thresholds)
  have x: "getXPReward easy (level exampleProfile) = 10"
    by (simp add: exampleProfile_def getXPReward_easy)
  have day: "((1700000000000::int) + 86400000) div 86400000 = 19676"
    by simp
  from mp [OF conjunct2 [OF t] opened,
        of exampleRemote "''u1''" exampleProfile "[]" "\<lambda>c. 1700000000000" exampleWorld]
  obtain inputs where
    req: "creationRequests
           (requests
             (generateDailyMissions exampleRemote ''u1'' exampleProfile []
                [\<lparr>schedule_id = ''s1'', frequency = daily, start_date = 0, end_date = None,
                  is_active = True\<rparr>]
                \<lparr>getTime = 1700000000000, getHours = 10\<rparr> (\<lambda>c. 0) (\<lambda>c. 1700000000000)
                exampleWorld))
           = creationRequests (requests exampleWorld) @ map (Pair ''u1'') inputs"
    and cats: "map in_category inputs = [sport, studies, routine]"
    and each: "\<forall>m \<in> set inputs.
               (\<exists>t \<in> set (getMissionTemplates (in_category m)).
                  in_title m = tpl_title t \<and> in_description m = Some (tpl_description t))
               \<and> in_difficulty m = selectDifficulty (level exampleProfile) (stats exampleProfile)
               \<and> in_xp_reward m = getXPReward (in_difficulty m) (level exampleProfile)
               \<and> in_deadline m = Some ((1700000000000 + 86400000) div 86400000)"
    by (elim exE conjE)
  have each': "\<forall>m \<in> set inputs.
               (\<exists>t \<in> set (getMissionTemplates (in_category m)).
                  in_title m = tpl_title t \<and> in_description m = Some (tpl_description t))
               \<and> in_difficulty m = easy
               \<and> in_xp_reward m = 10
               \<and> in_deadline m = Some 19676"
  proof
    fix m
    assume "m \<in> set inputs"
    with each have
      t: "\<exists>t \<in> set (getMissionTemplates (in_category m)).
            in_title m = tpl_title t \<and> in_description m = Some (tpl_description t)"
      and e: "in_difficulty m = selectDifficulty (level exampleProfile) (stats exampleProfile)"
      and g: "in_xp_reward m = getXPReward (in_difficulty m) (level exampleProfile)"
      and l: "in_deadline m = Some ((1700000000000 + 86400000) div 86400000)"
      by blast+
    from e d have e': "in_difficulty m = easy"
      by (rule trans)
    from g have g': "in_xp_reward m = 10"
      by (simp only: e' x)
    from l have l': "in_deadline m = Some 19676"
      by (simp only: day)
    from t e' g' l' show
      "(\<exists>t \<in> set (getMissionTemplates (in_category m)).
          in_title m = tpl_title t \<and> in_description m = Some (tpl_description t))
       \<and> in_difficulty m = easy \<and> in_xp_reward m = 10 \<and> in_deadline m = Some 19676"
      by (intro conjI)
  qed
  show ?thesis
    by (intro conjI a exI [where x = inputs] req cats each')
qed

end
